theory Spec2Isabelle
  imports Main "HOL-Library.AList"
begin

section \<open>The capture script of dpxdt (dpxdt/client/capture.js)\<close>

text \<open>
  The script is a PhantomJS program: a top-level part that validates its arguments and its
  configuration and installs callbacks on one page object, and the callbacks, which the
  event loop of the browser runs one at a time. The embedding keeps that shape: the
  variables of the script are the fields of one record, every callback is a function from
  that record to that record, and an event of the browser selects the callback to run.

  What the platform decides and the script only observes is a parameter: the outcome of a
  regular-expression match, whether the injected script throws, the value returned by the
  render call, the environment variable \<open>INJECT_DIR\<close>.

  The statements of a function are run in the order of the source. The script never
  writes \<open>return\<close> after \<open>phantom.exit(c)\<close>, and the embedding adds none: the call sets
  the exit code, the statements that follow it in the same turn are run, a later call in
  that turn sets the code anew, and once the turn is over no callback is run any more. An
  exception that nothing catches ends the turn where it is thrown and is recorded.
  Writing to the log file \<open>/tmp/phantom.log\<close> takes no part in any decision of the script
  and is left out.
\<close>

subsection \<open>Data\<close>

text \<open>The object \<open>ResourceStatus\<close>.\<close>

datatype ResourceStatus = DONE | ERROR | TIMEOUT | PENDING

text \<open>
  The fields that the script reads of the parsed configuration file; every one of them may
  be missing (\<open>None\<close> is JavaScript's \<open>undefined\<close>).
\<close>

record config =
  targetUrl :: "string option"
  viewportSize :: "(int \<times> int) option"
  userAgent :: "string option"
  clipRect :: "(int \<times> int) option"
  cookies :: "string list option"
  httpUserName :: "string option"
  httpPassword :: "string option"
  resourceTimeoutMs :: "int option"
  resourcesToIgnore :: "string list option"
  injectHeaders :: "(string \<times> (string \<times> string) list) list option"
  injectCss :: "string option"
  injectJs :: "string option"

text \<open>
  One element of the page, with what \<open>page.isDone\<close> reads of it. The fields
  \<open>complete\<close> and \<open>naturalHeight\<close> are \<open>None\<close> where \<open>typeof\<close> gives
  \<open>'undefined'\<close>.
\<close>

record element =
  tagName :: string
  classNames :: "string list"
  complete :: "bool option"
  naturalHeight :: "int option"

record document =
  readyState :: string
  elements :: "element list"

text \<open>The two functions that the script passes to \<open>page.waitForReady\<close>.\<close>

datatype continuation = DoInject | DoScreenshot

text \<open>
  The two function values that the script assigns to \<open>page.onLoadFinished\<close>: the one of
  lines 243-251, which looks at the status, and the one of lines 372-382, which starts the
  completion poll.
\<close>

datatype loadHandler = CheckStatus | StartPolling

text \<open>The exceptions that the script can throw and does not catch.\<close>

datatype jsError = TypeError | SyntaxError

text \<open>
  What \<open>JSON.parse(fs.read(configPath))\<close> gives: an exception, \<open>null\<close>, or a value with
  fields. \<open>JsonObject\<close> also stands for a parsed number, string, boolean or array: every
  field that the script reads of such a value is \<open>undefined\<close>.
\<close>

datatype parsed = Unreadable | JsonNull | JsonObject config

text \<open>How the loop over \<open>config.resourcesToIgnore\<close> ends.\<close>

datatype loopOutcome = Continues | Aborts | Throws

text \<open>What the platform answers.\<close>

record platform =
  regexMatch :: "string \<Rightarrow> string \<Rightarrow> bool option"
    \<comment> \<open>\<open>regexMatch bad url\<close>: \<open>None\<close> when \<open>new RegExp(bad)\<close> throws a \<open>SyntaxError\<close>,
       and otherwise whether \<open>url.match(new RegExp(bad))\<close> is not null\<close>
  evalCompletes :: "string \<Rightarrow> bool"
    \<comment> \<open>\<open>window.eval(js)\<close> returns without throwing\<close>
  renderResult :: bool
    \<comment> \<open>the value returned by \<open>page.render\<close>\<close>
  injectDir :: "string option"
    \<comment> \<open>\<open>system.env['INJECT_DIR']\<close>\<close>

text \<open>
  The variables of the script, the settings of the page, the timers that are armed, and
  the calls made to the platform so far.
\<close>

record proc =
  cfg :: config
  outputPath :: "string option"
  pageViewportSize :: "(int \<times> int) option"
  pageUserAgent :: "string option"
  pageClipRect :: "(int \<times> int \<times> int \<times> int) option"
  phantomCookies :: "string list"
  pageUserName :: "string option"
  pagePassword :: "string option"
  resourceTimeout :: int
  onLoadFinished :: "loadHandler option"
  networkCallbacks :: bool
  resourceStatusMap :: "(string \<times> ResourceStatus) list"
  page :: document
  intervals :: "nat list"
  timeouts :: "(nat \<times> continuation) list"
  nextTimer :: nat
  opened :: "string option list"
  aborted :: "string list"
  headersSet :: "(string \<times> string \<times> string) list"
  cssInjected :: "string list"
  jsEvaluated :: "string list"
  phantomInjected :: "string list"
  rendered :: "(string option \<times> bool) list"
  uncaught :: "jsError list"
  exited :: "int option"

subsection \<open>Truthiness\<close>

text \<open>
  A condition \<open>if (x)\<close> on a field of the configuration: \<open>undefined\<close>, the empty string
  and the number 0 are false, every array and every object is true. For a string field:
\<close>

definition truthyStr :: "string option \<Rightarrow> bool" where
  "truthyStr x = (case x of None \<Rightarrow> False | Some s \<Rightarrow> s \<noteq> [])"

subsection \<open>Reading and validating the configuration (lines 33-108)\<close>

definition emptyConfig :: config where
  "emptyConfig = \<lparr> targetUrl = None, viewportSize = None, userAgent = None, clipRect = None,
     cookies = None, httpUserName = None, httpPassword = None, resourceTimeoutMs = None,
     resourcesToIgnore = None, injectHeaders = None, injectCss = None, injectJs = None \<rparr>"

definition emptyDocument :: document where
  "emptyDocument = \<lparr> readyState = ''loading'', elements = [] \<rparr>"

text \<open>The state before the first statement of the script.\<close>

definition boot :: proc where
  "boot = \<lparr> cfg = emptyConfig, outputPath = None, pageViewportSize = None,
     pageUserAgent = None, pageClipRect = None, phantomCookies = [], pageUserName = None,
     pagePassword = None, resourceTimeout = 0, onLoadFinished = None,
     networkCallbacks = False, resourceStatusMap = [], page = emptyDocument, intervals = [],
     timeouts = [], nextTimer = 0, opened = [], aborted = [], headersSet = [],
     cssInjected = [], jsEvaluated = [], phantomInjected = [], rendered = [], uncaught = [],
     exited = None \<rparr>"

text \<open>\<open>var badResources\<close>, line 98.\<close>

definition badResources :: "string list" where
  "badResources = [''www.google-analytics.com'']"

text \<open>
  Lines 102-108: the default entries are pushed onto the list of the configuration when
  there is one (an empty array is true as well), and are the list otherwise.
\<close>

definition mergeResourcesToIgnore :: "config \<Rightarrow> config" where
  "mergeResourcesToIgnore c =
     (case resourcesToIgnore c of
        Some user \<Rightarrow> c\<lparr>resourcesToIgnore := Some (user @ badResources)\<rparr>
      | None \<Rightarrow> c\<lparr>resourcesToIgnore := Some badResources\<rparr>)"

text \<open>Lines 59-94: the settings of the page.\<close>

definition configurePage :: "config \<Rightarrow> proc \<Rightarrow> proc" where
  "configurePage c st =
     (let st1 = (case viewportSize c of
                   Some (w, h) \<Rightarrow> st\<lparr>pageViewportSize := Some (w, h)\<rparr>
                 | None \<Rightarrow> st);
          st2 = (if truthyStr (userAgent c) then st1\<lparr>pageUserAgent := userAgent c\<rparr> else st1);
          st3 = (case clipRect c of
                   Some (w, h) \<Rightarrow> st2\<lparr>pageClipRect := Some (0, 0, w, h)\<rparr>
                 | None \<Rightarrow> st2);
          st4 = (case cookies c of
                   Some cs \<Rightarrow> st3\<lparr>phantomCookies := phantomCookies st3 @ cs\<rparr>
                 | None \<Rightarrow> st3);
          st5 = (if truthyStr (httpUserName c) \<and> truthyStr (httpPassword c)
                 then st4\<lparr>pageUserName := httpUserName c, pagePassword := httpPassword c\<rparr>
                 else st4)
      in st5\<lparr>resourceTimeout :=
               (case resourceTimeoutMs c of
                  Some n \<Rightarrow> (if n \<noteq> 0 then n else 10000)
                | None \<Rightarrow> 10000)\<rparr>)"

text \<open>\<open>phantom.exit(code)\<close>.\<close>

definition phantomExit :: "int \<Rightarrow> proc \<Rightarrow> proc" where
  "phantomExit code st = st\<lparr>exited := Some code\<rparr>"

text \<open>An exception that nothing catches.\<close>

definition uncaughtError :: "jsError \<Rightarrow> proc \<Rightarrow> proc" where
  "uncaughtError e st = st\<lparr>uncaught := uncaught st @ [e]\<rparr>"

text \<open>
  Lines 112-382 assign the callbacks of the page: those of the network events, and
  \<open>page.onLoadFinished\<close>, which is assigned twice, at line 243 and again at line 372; the
  field keeps what was assigned last.
\<close>

definition installCallbacks :: "proc \<Rightarrow> proc" where
  "installCallbacks st =
     (let st1 = st\<lparr>networkCallbacks := True\<rparr>;
          st2 = st1\<lparr>onLoadFinished := Some CheckStatus\<rparr>
      in st2\<lparr>onLoadFinished := Some StartPolling\<rparr>)"

text \<open>
  The top level of the script, lines 33-108 and 384-389. \<open>args\<close> is \<open>system.args\<close> (the
  name of the script first); \<open>readConfig configPath\<close> is what lines 44-49 get from
  \<open>JSON.parse(fs.read(configPath))\<close>, where \<open>configPath\<close> is still \<open>null\<close> (\<open>None\<close>) when the
  number of arguments is wrong.

  When reading or parsing throws, the \<open>catch\<close> calls \<open>phantom.exit(1)\<close> and \<open>config\<close> stays
  \<open>undefined\<close>; line 52 then reads \<open>config[field]\<close>, which throws a \<open>TypeError\<close> outside
  the \<open>try\<close>, as it does when \<open>config\<close> is \<open>null\<close>. When \<open>targetUrl\<close> is missing or empty,
  line 54 calls \<open>phantom.exit(1)\<close> and the script goes on to line 59 and down to
  \<open>page.open(config.targetUrl)\<close>.
\<close>

definition main :: "string list \<Rightarrow> (string option \<Rightarrow> parsed) \<Rightarrow> proc" where
  "main args readConfig =
     (let st1 = (if length args = 3 then boot\<lparr>outputPath := Some (args ! 2)\<rparr>
                 else phantomExit 1 boot);
          configPath = (if length args = 3 then Some (args ! 1) else None)
      in case readConfig configPath of
           Unreadable \<Rightarrow> uncaughtError TypeError (phantomExit 1 st1)
         | JsonNull \<Rightarrow> uncaughtError TypeError st1
         | JsonObject c \<Rightarrow>
             (let st2 = st1\<lparr>cfg := c\<rparr>;
                  st3 = (if \<not> truthyStr (targetUrl c) then phantomExit 1 st2 else st2);
                  st4 = configurePage c st3;
                  st5 = st4\<lparr>cfg := mergeResourcesToIgnore c\<rparr>;
                  st6 = installCallbacks st5
              in st6\<lparr>opened := opened st6 @ [targetUrl c]\<rparr>))"

subsection \<open>The network callbacks (lines 129-203)\<close>

text \<open>\<open>url.indexOf('data:') == 0\<close>.\<close>

definition isDataUri :: "string \<Rightarrow> bool" where
  "isDataUri url = (take 5 url = ''data:'')"

text \<open>
  The loop of lines 135-142. In \<open>bad == url || url.match(new RegExp(bad))\<close> the regular
  expression is built only when \<open>bad\<close> is not the URL; building it may throw. The loop
  \<open>Aborts\<close> when it reaches \<open>networkRequest.abort()\<close>.
\<close>

fun ignoreLoop :: "platform \<Rightarrow> string \<Rightarrow> string list \<Rightarrow> loopOutcome" where
  "ignoreLoop p url [] = Continues"
| "ignoreLoop p url (bad # rest) =
     (if bad = url then Aborts
      else case regexMatch p bad url of
             None \<Rightarrow> Throws
           | Some True \<Rightarrow> Aborts
           | Some False \<Rightarrow> ignoreLoop p url rest)"

text \<open>
  The loops of lines 145-153; every \<open>setHeader\<close> call is recorded. The outer loop gives the
  state it has reached, and \<open>True\<close> when \<open>new RegExp(host)\<close> has thrown.
\<close>

fun headerLoop :: "string \<Rightarrow> (string \<times> string) list \<Rightarrow> proc \<Rightarrow> proc" where
  "headerLoop url [] st = st"
| "headerLoop url ((header, v) # rest) st =
     headerLoop url rest (st\<lparr>headersSet := headersSet st @ [(url, header, v)]\<rparr>)"

fun hostLoop ::
  "platform \<Rightarrow> string \<Rightarrow> (string \<times> (string \<times> string) list) list \<Rightarrow> proc \<Rightarrow> proc \<times> bool"
  where
  "hostLoop p url [] st = (st, False)"
| "hostLoop p url ((host, headers) # rest) st =
     (if host = url then hostLoop p url rest (headerLoop url headers st)
      else case regexMatch p host url of
             None \<Rightarrow> (st, True)
           | Some True \<Rightarrow> hostLoop p url rest (headerLoop url headers st)
           | Some False \<Rightarrow> hostLoop p url rest st)"

text \<open>\<open>resourceStatusMap[url] = status\<close>.\<close>

definition setStatus :: "string \<Rightarrow> ResourceStatus \<Rightarrow> proc \<Rightarrow> proc" where
  "setStatus url status st =
     st\<lparr>resourceStatusMap := AList.update url status (resourceStatusMap st)\<rparr>"

text \<open>
  \<open>page.onResourceRequested\<close>. After line 108 \<open>config.resourcesToIgnore\<close> is an array in
  every state that runs a callback. A \<open>SyntaxError\<close> of \<open>new RegExp\<close> is not caught: the
  handler ends there, before \<open>networkRequest.abort()\<close> and before line 161.
\<close>

definition onResourceRequested :: "platform \<Rightarrow> string \<Rightarrow> proc \<Rightarrow> proc" where
  "onResourceRequested p url st =
     (if isDataUri url then setStatus url PENDING st
      else
        case ignoreLoop p url (case resourcesToIgnore (cfg st) of Some l \<Rightarrow> l | None \<Rightarrow> []) of
          Aborts \<Rightarrow> st\<lparr>aborted := aborted st @ [url]\<rparr>
        | Throws \<Rightarrow> uncaughtError SyntaxError st
        | Continues \<Rightarrow>
            (case injectHeaders (cfg st) of
               Some hosts \<Rightarrow>
                 (case hostLoop p url hosts st of
                    (st1, True) \<Rightarrow> uncaughtError SyntaxError st1
                  | (st1, False) \<Rightarrow> setStatus url PENDING st1)
             | None \<Rightarrow> setStatus url PENDING st))"

text \<open>
  The paths of \<open>page.onResourceRequested\<close> that get to line 161: the URL is a data URI, or
  the loop over \<open>config.resourcesToIgnore\<close> runs to its end and no key of
  \<open>config.injectHeaders\<close> makes \<open>new RegExp\<close> throw.
\<close>

definition reachesLine161 :: "platform \<Rightarrow> string \<Rightarrow> proc \<Rightarrow> bool" where
  "reachesLine161 p url st =
     (isDataUri url \<or>
      (ignoreLoop p url (case resourcesToIgnore (cfg st) of Some l \<Rightarrow> l | None \<Rightarrow> []) = Continues
       \<and> (case injectHeaders (cfg st) of
             Some hosts \<Rightarrow> snd (hostLoop p url hosts st) = False
           | None \<Rightarrow> True)))"

text \<open>\<open>page.onResourceReceived\<close>; the redirect target is only logged.\<close>

definition onResourceReceived :: "string \<Rightarrow> string \<Rightarrow> string option \<Rightarrow> proc \<Rightarrow> proc" where
  "onResourceReceived stage url redirectURL st =
     (if stage \<noteq> ''end'' then st
      else if map_of (resourceStatusMap st) url = Some PENDING then setStatus url DONE st
      else st)"

definition onResourceTimeout :: "string \<Rightarrow> proc \<Rightarrow> proc" where
  "onResourceTimeout url st =
     (if map_of (resourceStatusMap st) url = Some PENDING then setStatus url TIMEOUT st
      else st)"

definition onResourceError :: "string \<Rightarrow> proc \<Rightarrow> proc" where
  "onResourceError url st =
     (if map_of (resourceStatusMap st) url = Some PENDING then setStatus url ERROR st
      else st)"

subsection \<open>Waiting, injecting, capturing (lines 243-382)\<close>

text \<open>The first value of \<open>page.onLoadFinished\<close>, lines 243-251.\<close>

definition onLoadFinishedCheckStatus :: "string \<Rightarrow> proc \<Rightarrow> proc" where
  "onLoadFinishedCheckStatus status st =
     (if status = ''success'' then st else phantomExit 1 st)"

text \<open>\<open>page.doScreenshot\<close>. The value returned by \<open>page.render\<close> is not read.\<close>

definition doScreenshot :: "platform \<Rightarrow> proc \<Rightarrow> proc" where
  "doScreenshot p st =
     (let st1 = st\<lparr>phantomInjected := phantomInjected st @
                   [(case injectDir p of Some d \<Rightarrow> d | None \<Rightarrow> ''undefined'') @ ''/inject.js'']\<rparr>;
          st2 = st1\<lparr>rendered := rendered st1 @ [(outputPath st1, renderResult p)]\<rparr>
      in phantomExit 0 st2)"

text \<open>
  The first loop of \<open>page.waitForReady\<close>, lines 311-316: \<open>totals[status] || 0\<close> is 0 for a
  status not counted yet.
\<close>

fun totalsLoop ::
  "(string \<times> ResourceStatus) list \<Rightarrow> (ResourceStatus \<Rightarrow> nat) \<Rightarrow> ResourceStatus \<Rightarrow> nat" where
  "totalsLoop [] totals = totals"
| "totalsLoop ((url, status) # rest) totals =
     totalsLoop rest (totals(status := totals status + 1))"

definition pendingTotal :: "proc \<Rightarrow> nat" where
  "pendingTotal st = totalsLoop (resourceStatusMap st) (\<lambda>_. 0) PENDING"

text \<open>\<open>setTimeout(function() { page.waitForReady(func); }, 500)\<close>, with \<open>k\<close> naming \<open>func\<close>.\<close>

definition setTimeoutWait :: "continuation \<Rightarrow> proc \<Rightarrow> proc" where
  "setTimeoutWait k st =
     st\<lparr>timeouts := timeouts st @ [(nextTimer st, k)], nextTimer := nextTimer st + 1\<rparr>"

text \<open>\<open>page.waitForReady(func)\<close>; \<open>k\<close> names \<open>func\<close> for the timer.\<close>

definition waitForReady :: "(proc \<Rightarrow> proc) \<Rightarrow> continuation \<Rightarrow> proc \<Rightarrow> proc" where
  "waitForReady func k st =
     (if pendingTotal st = 0 then func st else setTimeoutWait k st)"

text \<open>
  \<open>page.doInject\<close>. Lines 297-299 call \<open>phantom.exit(1)\<close> when the injected script has
  thrown; line 304 calls \<open>page.waitForReady(page.doScreenshot)\<close> in every case.
\<close>

definition doInject :: "platform \<Rightarrow> proc \<Rightarrow> proc" where
  "doInject p st =
     (let st1 = (case injectCss (cfg st) of
                   Some css \<Rightarrow> (if css \<noteq> [] then st\<lparr>cssInjected := cssInjected st @ [css]\<rparr>
                                else st)
                 | None \<Rightarrow> st);
          st2 = (case injectJs (cfg st1) of
                   Some js \<Rightarrow>
                     (if js \<noteq> [] then
                        (let st' = st1\<lparr>jsEvaluated := jsEvaluated st1 @ [js]\<rparr>
                         in if \<not> evalCompletes p js then phantomExit 1 st' else st')
                      else st1)
                 | None \<Rightarrow> st1)
      in waitForReady (doScreenshot p) DoScreenshot st2)"

text \<open>The function a timer of \<open>page.waitForReady\<close> passes on.\<close>

definition invoke :: "platform \<Rightarrow> continuation \<Rightarrow> proc \<Rightarrow> proc" where
  "invoke p k = (case k of DoInject \<Rightarrow> doInject p | DoScreenshot \<Rightarrow> doScreenshot p)"

text \<open>\<open>document.getElementsByTagName\<close> and \<open>document.getElementsByClassName\<close>.\<close>

definition getElementsByTagName :: "string \<Rightarrow> document \<Rightarrow> element list" where
  "getElementsByTagName name d = filter (\<lambda>e. tagName e = name) (elements d)"

definition getElementsByClassName :: "string list \<Rightarrow> document \<Rightarrow> element list" where
  "getElementsByClassName names d =
     filter (\<lambda>e. list_all (\<lambda>c. c \<in> set (classNames e)) names) (elements d)"

text \<open>The loop of lines 348-360; \<open>False\<close> when it returns false.\<close>

fun imgLoop :: "element list \<Rightarrow> bool" where
  "imgLoop [] = True"
| "imgLoop (imgElement # rest) =
     (case complete imgElement of
        None \<Rightarrow> False
      | Some c \<Rightarrow>
          (case naturalHeight imgElement of
             None \<Rightarrow> False
           | Some h \<Rightarrow> (if \<not> (c \<and> h \<noteq> 0) then False else imgLoop rest)))"

text \<open>\<open>page.isDone\<close>, evaluated in the page.\<close>

definition isDone :: "document \<Rightarrow> bool" where
  "isDone d =
     (if readyState d \<noteq> ''complete'' then False
      else if \<not> imgLoop (getElementsByTagName ''img'' d) then False
      else if length (getElementsByClassName [''lazy-load''] d) \<noteq>
              length (getElementsByClassName [''lazy-load'', ''is-unveiled''] d)
      then False
      else True)"

text \<open>The second value of \<open>page.onLoadFinished\<close>, lines 372-382: \<open>setInterval\<close>.\<close>

definition onLoadFinishedStartPolling :: "string \<Rightarrow> proc \<Rightarrow> proc" where
  "onLoadFinishedStartPolling status st =
     st\<lparr>intervals := intervals st @ [nextTimer st], nextTimer := nextTimer st + 1\<rparr>"

text \<open>The function given to \<open>setInterval\<close>, for the interval \<open>iid\<close>.\<close>

definition intervalTick :: "platform \<Rightarrow> nat \<Rightarrow> proc \<Rightarrow> proc" where
  "intervalTick p iid st =
     (if isDone (page st)
      then waitForReady (doInject p) DoInject (st\<lparr>intervals := removeAll iid (intervals st)\<rparr>)
      else st)"

subsection \<open>The event loop\<close>

text \<open>
  What the browser delivers: the network events of a request, the end of a page load, a
  timer that fires, and a change of the page made by the page itself. An event finds a
  callback only where the script has assigned one, and none once the process has ended.
\<close>

datatype event =
    ResourceRequested string
  | ResourceReceived string string "string option"
  | ResourceTimeout string
  | ResourceError string
  | LoadFinished string
  | IntervalFires nat
  | TimeoutFires nat
  | PageChanges document

definition step :: "platform \<Rightarrow> proc \<Rightarrow> event \<Rightarrow> proc" where
  "step p st ev =
     (if exited st \<noteq> None then st
      else case ev of
        ResourceRequested url \<Rightarrow>
          (if networkCallbacks st then onResourceRequested p url st else st)
      | ResourceReceived stage url redirectURL \<Rightarrow>
          (if networkCallbacks st then onResourceReceived stage url redirectURL st else st)
      | ResourceTimeout url \<Rightarrow>
          (if networkCallbacks st then onResourceTimeout url st else st)
      | ResourceError url \<Rightarrow>
          (if networkCallbacks st then onResourceError url st else st)
      | LoadFinished status \<Rightarrow>
          (case onLoadFinished st of
             Some CheckStatus \<Rightarrow> onLoadFinishedCheckStatus status st
           | Some StartPolling \<Rightarrow> onLoadFinishedStartPolling status st
           | None \<Rightarrow> st)
      | IntervalFires iid \<Rightarrow>
          (if iid \<in> set (intervals st) then intervalTick p iid st else st)
      | TimeoutFires tid \<Rightarrow>
          (case map_of (timeouts st) tid of
             Some k \<Rightarrow> waitForReady (invoke p k) k
                        (st\<lparr>timeouts := AList.delete tid (timeouts st)\<rparr>)
           | None \<Rightarrow> st)
      | PageChanges d \<Rightarrow> st\<lparr>page := d\<rparr>)"

fun run :: "platform \<Rightarrow> proc \<Rightarrow> event list \<Rightarrow> proc" where
  "run p st [] = st"
| "run p st (ev # evs) = run p (step p st ev) evs"

subsection \<open>Readiness as the specification words it\<close>

text \<open>
  The four sub-conditions of the specification's readiness, in its words: the ledger has
  no \<open>PENDING\<close> entry; the document is complete; every \<open>img\<close> element has \<open>complete\<close>
  true and a natural height that is not 0; there are as many elements of class
  \<open>lazy-load\<close> as elements of classes \<open>lazy-load\<close> and \<open>is-unveiled\<close>. They are compared
  below with what \<open>page.isDone\<close> and \<open>page.waitForReady\<close> compute.
\<close>

definition imgLoaded :: "element \<Rightarrow> bool" where
  "imgLoaded e =
     (complete e = Some True \<and> (case naturalHeight e of Some h \<Rightarrow> h \<noteq> 0 | None \<Rightarrow> False))"

definition hasClass :: "string \<Rightarrow> element \<Rightarrow> bool" where
  "hasClass c e = (c \<in> set (classNames e))"

definition noPendingClaimed :: "proc \<Rightarrow> bool" where
  "noPendingClaimed st = (count_list (map snd (resourceStatusMap st)) PENDING = 0)"

definition domReadyClaimed :: "document \<Rightarrow> bool" where
  "domReadyClaimed d =
     (readyState d = ''complete''
      \<and> list_all imgLoaded (filter (\<lambda>e. tagName e = ''img'') (elements d))
      \<and> length (filter (hasClass ''lazy-load'') (elements d)) =
          length (filter (\<lambda>e. hasClass ''lazy-load'' e \<and> hasClass ''is-unveiled'' e) (elements d)))"

definition readinessClaimed :: "proc \<Rightarrow> bool" where
  "readinessClaimed st = (noPendingClaimed st \<and> domReadyClaimed (page st))"

subsection \<open>Example runs\<close>

text \<open>
  An invocation \<open>phantomjs capture.js config.json out.png\<close> and some platforms and event
  sequences, at which the theorems below are evaluated.
\<close>

definition exampleArgs :: "string list" where
  "exampleArgs = [''capture.js'', ''config.json'', ''out.png'']"

definition exampleConfig :: config where
  "exampleConfig = emptyConfig\<lparr>targetUrl := Some ''http://example.test/ok.html''\<rparr>"

text \<open>A platform on which no regular expression matches and nothing fails.\<close>

definition quietPlatform :: platform where
  "quietPlatform = \<lparr> regexMatch = (\<lambda>bad url. Some False), evalCompletes = (\<lambda>js. True),
     renderResult = True, injectDir = Some ''/opt/inject'' \<rparr>"

definition exampleStart :: proc where
  "exampleStart = main exampleArgs (\<lambda>path. JsonObject exampleConfig)"

text \<open>Two requests, the second of which has been answered.\<close>

definition twoResources :: proc where
  "twoResources = run quietPlatform exampleStart
     [ResourceRequested ''http://example.test/a.js'',
      ResourceRequested ''http://example.test/b.css'',
      ResourceReceived ''end'' ''http://example.test/b.css'' None]"


text \<open>A platform on which every regular expression matches every URL.\<close>

definition eagerPlatform :: platform where
  "eagerPlatform = \<lparr> regexMatch = (\<lambda>bad url. Some True), evalCompletes = (\<lambda>js. True),
     renderResult = True, injectDir = Some ''/opt/inject'' \<rparr>"

text \<open>A platform on which the script \<open>throw 1\<close> throws, and a configuration that injects it.\<close>

definition throwingPlatform :: platform where
  "throwingPlatform = \<lparr> regexMatch = (\<lambda>bad url. Some False),
     evalCompletes = (\<lambda>js. js \<noteq> ''throw 1''), renderResult = True,
     injectDir = Some ''/opt/inject'' \<rparr>"

definition injectStart :: proc where
  "injectStart = main exampleArgs (\<lambda>path. JsonObject (exampleConfig\<lparr>injectJs := Some ''throw 1''\<rparr>))"

text \<open>
  A platform on which the two patterns of the examples match the two URLs they are meant
  for, and a configuration with a list of its own.
\<close>

definition adsPlatform :: platform where
  "adsPlatform = \<lparr> regexMatch = (\<lambda>bad url. Some
       ((bad = ''ads.example.test'' \<and> url = ''http://ads.example.test/x.js'') \<or>
        (bad = ''www.google-analytics.com'' \<and> url = ''http://www.google-analytics.com/ga.js''))),
     evalCompletes = (\<lambda>js. True), renderResult = True, injectDir = Some ''/opt/inject'' \<rparr>"

definition adsStart :: proc where
  "adsStart = main exampleArgs
     (\<lambda>path. JsonObject (exampleConfig\<lparr>resourcesToIgnore := Some [''ads.example.test'']\<rparr>))"

text \<open>
  A complete page without images, and one with a lazy-load element that is not unveiled.
\<close>

definition completeDoc :: document where
  "completeDoc = \<lparr> readyState = ''complete'', elements = [] \<rparr>"

definition lazyDoc :: document where
  "lazyDoc = \<lparr> readyState = ''complete'',
     elements = [\<lparr> tagName = ''div'', classNames = [''lazy-load''], complete = None,
                   naturalHeight = None \<rparr>] \<rparr>"

text \<open>
  The page loads; the completion poll finds the page done while one request is pending;
  the page then gains a lazy-load element and the request is answered.
\<close>

definition lazyState :: proc where
  "lazyState = run quietPlatform exampleStart
     [LoadFinished ''success'',
      ResourceRequested ''http://example.test/a.js'',
      PageChanges completeDoc,
      IntervalFires 0,
      PageChanges lazyDoc,
      ResourceReceived ''end'' ''http://example.test/a.js'' None]"

text \<open>The page has loaded and is complete; the completion poll has not run yet.\<close>

definition pollingState :: proc where
  "pollingState = run quietPlatform exampleStart
     [LoadFinished ''success'', PageChanges completeDoc]"



text \<open>A configuration file that holds \<open>null\<close>, and one that holds an object without fields.\<close>

definition nullStart :: proc where
  "nullStart = main exampleArgs (\<lambda>path. JsonNull)"

definition noUrlStart :: proc where
  "noUrlStart = main exampleArgs (\<lambda>path. JsonObject emptyConfig)"

text \<open>
  The configuration that injects \<open>throw 1\<close>: the page has loaded and is complete, and the
  completion poll has not run yet.
\<close>

definition injectPolling :: proc where
  "injectPolling = run throwingPlatform injectStart
     [LoadFinished ''success'', PageChanges completeDoc]"



section \<open>Auxiliary facts\<close>

lemma totalsLoop_count:
  "totalsLoop m totals s = totals s + length (filter (\<lambda>e. snd e = s) m)"
proof (induction m arbitrary: totals)
  case Nil
  show ?case by simp
next
  case (Cons e rest)
  obtain url status where e: "e = (url, status)" by (cases e)
  show ?case
    unfolding e totalsLoop.simps Cons.IH [of "totals(status := totals status + 1)"]
    by simp
qed

lemma pendingTotal_zero_iff:
  "pendingTotal st = 0 \<longleftrightarrow> PENDING \<notin> snd ` set (resourceStatusMap st)"
  by (auto simp: pendingTotal_def totalsLoop_count filter_empty_conv image_iff)

lemma headerLoop_eq:
  "headerLoop url hs st = st\<lparr>headersSet := headersSet st @ map (\<lambda>(h, v). (url, h, v)) hs\<rparr>"
  by (induction url hs st rule: headerLoop.induct) auto

text \<open>The loop over \<open>config.injectHeaders\<close> changes nothing but the headers that are set.\<close>

lemma hostLoop_result:
  "hostLoop p url hosts st = (st1, b) \<Longrightarrow>
   \<exists>hs. st1 = st\<lparr>headersSet := headersSet st @ hs\<rparr>"
proof (induction hosts arbitrary: st)
  case Nil
  then have "st1 = st\<lparr>headersSet := headersSet st @ []\<rparr>" by simp
  then show ?case by blast
next
  case (Cons entry rest)
  obtain host headers where entry: "entry = (host, headers)" by (cases entry)
  let ?st' = "headerLoop url headers st"
  consider (sets) "hostLoop p url rest ?st' = (st1, b)"
    | (throws) "st1 = st"
    | (skips) "hostLoop p url rest st = (st1, b)"
    using Cons.prems unfolding entry
    by (auto split: if_splits option.splits bool.splits)
  then show ?case
  proof cases
    case sets
    from Cons.IH [OF sets] obtain hs where
      "st1 = ?st'\<lparr>headersSet := headersSet ?st' @ hs\<rparr>" by blast
    then have "st1 = st\<lparr>headersSet := headersSet st @ (map (\<lambda>(h, v). (url, h, v)) headers @ hs)\<rparr>"
      by (simp add: headerLoop_eq)
    then show ?thesis by blast
  next
    case throws
    then have "st1 = st\<lparr>headersSet := headersSet st @ []\<rparr>" by simp
    then show ?thesis by blast
  next
    case skips
    then show ?thesis by (rule Cons.IH)
  qed
qed



lemma step_exited: "exited st \<noteq> None \<Longrightarrow> step p st ev = st"
  by (simp add: step_def)

lemma step_network_eq:
  "step p st (ResourceRequested url) =
     (if exited st = None \<and> networkCallbacks st then onResourceRequested p url st else st)"
  "step p st (ResourceReceived stage url r) =
     (if exited st = None \<and> networkCallbacks st then onResourceReceived stage url r st else st)"
  "step p st (ResourceTimeout url) =
     (if exited st = None \<and> networkCallbacks st then onResourceTimeout url st else st)"
  "step p st (ResourceError url) =
     (if exited st = None \<and> networkCallbacks st then onResourceError url st else st)"
  by (simp_all add: step_def)

lemma run_exited: "exited st \<noteq> None \<Longrightarrow> run p st evs = st"
  by (induction evs) (simp_all add: step_exited)

lemma ledger_doScreenshot: "resourceStatusMap (doScreenshot p st) = resourceStatusMap st"
  by (simp add: doScreenshot_def phantomExit_def Let_def)

lemma ledger_waitForReady:
  "(\<And>s. resourceStatusMap (func s) = resourceStatusMap s) \<Longrightarrow>
   resourceStatusMap (waitForReady func k st) = resourceStatusMap st"
  by (simp add: waitForReady_def setTimeoutWait_def)

lemma ledger_doInject: "resourceStatusMap (doInject p st) = resourceStatusMap st"
  by (simp add: doInject_def Let_def phantomExit_def ledger_waitForReady ledger_doScreenshot
      split: option.splits)

lemma ledger_invoke: "resourceStatusMap (invoke p k st) = resourceStatusMap st"
  by (cases k) (simp_all add: invoke_def ledger_doInject ledger_doScreenshot)

lemma ledger_intervalTick: "resourceStatusMap (intervalTick p iid st) = resourceStatusMap st"
  by (simp add: intervalTick_def ledger_waitForReady ledger_doInject)

lemma ledger_step_other:
  "resourceStatusMap (step p st (LoadFinished s)) = resourceStatusMap st"
  "resourceStatusMap (step p st (IntervalFires i)) = resourceStatusMap st"
  "resourceStatusMap (step p st (TimeoutFires i)) = resourceStatusMap st"
  "resourceStatusMap (step p st (PageChanges d)) = resourceStatusMap st"
  by (simp_all add: step_def ledger_intervalTick ledger_waitForReady ledger_invoke
      onLoadFinishedCheckStatus_def onLoadFinishedStartPolling_def phantomExit_def
      split: option.splits loadHandler.splits)

lemma ledger_requested:
  "resourceStatusMap (onResourceRequested p url st) =
     (if reachesLine161 p url st then AList.update url PENDING (resourceStatusMap st)
      else resourceStatusMap st)"
  by (auto simp: onResourceRequested_def reachesLine161_def setStatus_def uncaughtError_def
      split: option.splits loopOutcome.splits prod.splits bool.splits
      dest!: hostLoop_result)

lemma entry_requested:
  "map_of (resourceStatusMap (onResourceRequested p url st)) =
     (if reachesLine161 p url st then (map_of (resourceStatusMap st))(url \<mapsto> PENDING)
      else map_of (resourceStatusMap st))"
  by (simp add: ledger_requested update_conv')




lemma step_network:
  "exited st = None \<Longrightarrow> networkCallbacks st \<Longrightarrow>
   step p st (ResourceRequested url) = onResourceRequested p url st"
  "exited st = None \<Longrightarrow> networkCallbacks st \<Longrightarrow>
   step p st (ResourceReceived stage url r) = onResourceReceived stage url r st"
  "exited st = None \<Longrightarrow> networkCallbacks st \<Longrightarrow>
   step p st (ResourceTimeout url) = onResourceTimeout url st"
  "exited st = None \<Longrightarrow> networkCallbacks st \<Longrightarrow>
   step p st (ResourceError url) = onResourceError url st"
  by (simp_all add: step_def)

lemma frame_requested:
  "exited (onResourceRequested p url st) = exited st"
  "cfg (onResourceRequested p url st) = cfg st"
  "rendered (onResourceRequested p url st) = rendered st"
  "timeouts (onResourceRequested p url st) = timeouts st"
  "intervals (onResourceRequested p url st) = intervals st"
  "page (onResourceRequested p url st) = page st"
  "outputPath (onResourceRequested p url st) = outputPath st"
  "networkCallbacks (onResourceRequested p url st) = networkCallbacks st"
  by (auto simp: onResourceRequested_def setStatus_def uncaughtError_def
      split: option.splits loopOutcome.splits prod.splits bool.splits
      dest!: hostLoop_result)

lemma frame_received:
  "exited (onResourceReceived stage url r st) = exited st"
  "cfg (onResourceReceived stage url r st) = cfg st"
  "rendered (onResourceReceived stage url r st) = rendered st"
  "timeouts (onResourceReceived stage url r st) = timeouts st"
  "intervals (onResourceReceived stage url r st) = intervals st"
  "page (onResourceReceived stage url r st) = page st"
  "outputPath (onResourceReceived stage url r st) = outputPath st"
  "networkCallbacks (onResourceReceived stage url r st) = networkCallbacks st"
  by (simp_all add: onResourceReceived_def setStatus_def)

lemma frame_timeout:
  "exited (onResourceTimeout url st) = exited st"
  "cfg (onResourceTimeout url st) = cfg st"
  "rendered (onResourceTimeout url st) = rendered st"
  "timeouts (onResourceTimeout url st) = timeouts st"
  "intervals (onResourceTimeout url st) = intervals st"
  "page (onResourceTimeout url st) = page st"
  "outputPath (onResourceTimeout url st) = outputPath st"
  "networkCallbacks (onResourceTimeout url st) = networkCallbacks st"
  by (simp_all add: onResourceTimeout_def setStatus_def)

lemma frame_error:
  "exited (onResourceError url st) = exited st"
  "cfg (onResourceError url st) = cfg st"
  "rendered (onResourceError url st) = rendered st"
  "timeouts (onResourceError url st) = timeouts st"
  "intervals (onResourceError url st) = intervals st"
  "page (onResourceError url st) = page st"
  "outputPath (onResourceError url st) = outputPath st"
  "networkCallbacks (onResourceError url st) = networkCallbacks st"
  by (simp_all add: onResourceError_def setStatus_def)

lemma ledger_received:
  "resourceStatusMap (onResourceReceived stage url r st) =
     (if stage = ''end'' \<and> map_of (resourceStatusMap st) url = Some PENDING
      then AList.update url DONE (resourceStatusMap st) else resourceStatusMap st)"
  by (simp add: onResourceReceived_def setStatus_def)

lemma ledger_timeout:
  "resourceStatusMap (onResourceTimeout url st) =
     (if map_of (resourceStatusMap st) url = Some PENDING
      then AList.update url TIMEOUT (resourceStatusMap st) else resourceStatusMap st)"
  by (simp add: onResourceTimeout_def setStatus_def)

lemma ledger_error:
  "resourceStatusMap (onResourceError url st) =
     (if map_of (resourceStatusMap st) url = Some PENDING
      then AList.update url ERROR (resourceStatusMap st) else resourceStatusMap st)"
  by (simp add: onResourceError_def setStatus_def)

lemma aborted_requested:
  "aborted (onResourceRequested p url st) =
     (if \<not> isDataUri url \<and>
         ignoreLoop p url (case resourcesToIgnore (cfg st) of Some l \<Rightarrow> l | None \<Rightarrow> []) = Aborts
      then aborted st @ [url] else aborted st)"
  by (auto simp: onResourceRequested_def setStatus_def uncaughtError_def
      split: option.splits loopOutcome.splits prod.splits bool.splits
      dest!: hostLoop_result)


lemma pendingTotal_filter:
  "pendingTotal st = length (filter (\<lambda>e. snd e = PENDING) (resourceStatusMap st))"
  by (simp add: pendingTotal_def totalsLoop_count)

lemma waitForReady_no_pending:
  "PENDING \<notin> snd ` set (resourceStatusMap st) \<Longrightarrow> waitForReady func k st = func st"
  by (simp add: waitForReady_def pendingTotal_zero_iff)

lemma waitForReady_pending:
  "PENDING \<in> snd ` set (resourceStatusMap st) \<Longrightarrow> waitForReady func k st = setTimeoutWait k st"
  using pendingTotal_zero_iff [of st] by (simp add: waitForReady_def)




lemma exited_doScreenshot: "exited (doScreenshot p st) = Some 0"
  by (simp add: doScreenshot_def phantomExit_def Let_def)

lemma rendered_doScreenshot:
  "rendered (doScreenshot p st) = rendered st @ [(outputPath st, renderResult p)]"
  by (simp add: doScreenshot_def phantomExit_def Let_def)

lemma headersSet_requested_data:
  "isDataUri url \<Longrightarrow> headersSet (onResourceRequested p url st) = headersSet st"
  by (simp add: onResourceRequested_def setStatus_def)

lemma nextTimer_requested:
  "nextTimer (onResourceRequested p url st) = nextTimer st"
  by (auto simp: onResourceRequested_def setStatus_def uncaughtError_def
      split: option.splits loopOutcome.splits prod.splits bool.splits
      dest!: hostLoop_result)

lemma outputPath_doScreenshot: "outputPath (doScreenshot p st) = outputPath st"
  by (simp add: doScreenshot_def phantomExit_def Let_def)

lemma outputPath_waitForReady:
  "(\<And>s. outputPath (func s) = outputPath s) \<Longrightarrow>
   outputPath (waitForReady func k st) = outputPath st"
  by (simp add: waitForReady_def setTimeoutWait_def)

lemma outputPath_doInject: "outputPath (doInject p st) = outputPath st"
  by (simp add: doInject_def Let_def phantomExit_def outputPath_waitForReady
      outputPath_doScreenshot split: option.splits)

lemma outputPath_invoke: "outputPath (invoke p k st) = outputPath st"
  by (cases k) (simp_all add: invoke_def outputPath_doInject outputPath_doScreenshot)

lemma outputPath_step: "outputPath (step p st ev) = outputPath st"
  by (cases ev)
    (simp_all add: step_def frame_requested frame_received frame_timeout frame_error
      intervalTick_def outputPath_waitForReady outputPath_invoke outputPath_doInject
      onLoadFinishedCheckStatus_def onLoadFinishedStartPolling_def phantomExit_def
      split: option.splits loadHandler.splits)

lemma outputPath_run: "outputPath (run p st evs) = outputPath st"
  by (induction evs arbitrary: st) (simp_all add: outputPath_step)






lemma main_outputPath:
  "length args = 3 \<Longrightarrow> outputPath (main args readConfig) = Some (args ! 2)"
  by (simp add: main_def Let_def phantomExit_def uncaughtError_def configurePage_def
      installCallbacks_def split: option.splits prod.splits parsed.splits)





lemma main_valid:
  "length args = 3 \<Longrightarrow> readConfig (Some (args ! 1)) = JsonObject c \<Longrightarrow>
   targetUrl c = Some u \<Longrightarrow> u \<noteq> [] \<Longrightarrow>
   main args readConfig =
     (installCallbacks
        ((configurePage c (boot\<lparr>outputPath := Some (args ! 2), cfg := c\<rparr>))
           \<lparr>cfg := mergeResourcesToIgnore c\<rparr>))
     \<lparr>opened := [Some u]\<rparr>"
  by (simp add: main_def Let_def truthyStr_def installCallbacks_def configurePage_def boot_def
      split: option.splits prod.splits)

lemma imgLoop_eq: "imgLoop es = list_all imgLoaded es"
  by (induction es) (auto simp: imgLoaded_def split: option.splits)

lemma isDone_eq: "isDone d = domReadyClaimed d"
  by (simp add: isDone_def domReadyClaimed_def imgLoop_eq getElementsByTagName_def
      getElementsByClassName_def hasClass_def [abs_def])

lemma count_list_pending:
  "count_list (map snd m) s = length (filter (\<lambda>e. snd e = s) m)"
  by (induction m) auto

lemma pendingTotal_eq: "(pendingTotal st = 0) = noPendingClaimed st"
  by (simp add: pendingTotal_filter noPendingClaimed_def count_list_pending)

lemma noPendingClaimed_intervals:
  "noPendingClaimed (st\<lparr>intervals := x\<rparr>) = noPendingClaimed st"
  by (simp add: noPendingClaimed_def)

text \<open>
  The ledger is a JavaScript object, so a URL has at most one entry: the list that stands
  for it has no key twice, in any state of any run.
\<close>

lemma main_ledger: "resourceStatusMap (main args readConfig) = []"
  by (simp add: main_def Let_def phantomExit_def uncaughtError_def boot_def configurePage_def
      installCallbacks_def split: option.splits prod.splits parsed.splits)

lemma distinct_ledger_step:
  assumes d: "distinct (map fst (resourceStatusMap st))"
  shows "distinct (map fst (resourceStatusMap (step p st ev)))"
proof (cases ev)
  case (ResourceRequested x)
  then show ?thesis using d by (simp add: step_network_eq ledger_requested distinct_update)
next
  case (ResourceReceived stage x r)
  then show ?thesis using d by (simp add: step_network_eq ledger_received distinct_update)
next
  case (ResourceTimeout x)
  then show ?thesis using d by (simp add: step_network_eq ledger_timeout distinct_update)
next
  case (ResourceError x)
  then show ?thesis using d by (simp add: step_network_eq ledger_error distinct_update)
qed (simp_all add: ledger_step_other d)

lemma distinct_ledger_run:
  "distinct (map fst (resourceStatusMap (run p (main args readConfig) evs)))"
proof -
  have "distinct (map fst (resourceStatusMap st)) \<Longrightarrow>
      distinct (map fst (resourceStatusMap (run p st evs)))" for st
    by (induction evs arbitrary: st) (simp_all add: distinct_ledger_step)
  then show ?thesis by (simp add: main_ledger)
qed

text \<open>
  What the top level does on the faults that it meets with \<open>phantom.exit(1)\<close>, and what
  \<open>page.doInject\<close> does after an injected script has thrown while nothing is pending.
\<close>

lemma main_unreadable:
  "readConfig (if length args = 3 then Some (args ! 1) else None) = Unreadable \<Longrightarrow>
   exited (main args readConfig) = Some 1 \<and> opened (main args readConfig) = [] \<and>
   rendered (main args readConfig) = [] \<and> uncaught (main args readConfig) = [TypeError]"
  by (simp add: main_def Let_def phantomExit_def uncaughtError_def boot_def)

lemma main_no_targetUrl:
  "readConfig (if length args = 3 then Some (args ! 1) else None) = JsonObject c \<Longrightarrow>
   \<not> truthyStr (targetUrl c) \<Longrightarrow>
   exited (main args readConfig) = Some 1 \<and> opened (main args readConfig) = [targetUrl c] \<and>
   rendered (main args readConfig) = []"
  by (simp add: main_def Let_def phantomExit_def boot_def configurePage_def installCallbacks_def
      split: option.splits prod.splits)

lemma doInject_throws_renders:
  "injectJs (cfg st) = Some js \<Longrightarrow> js \<noteq> [] \<Longrightarrow> \<not> evalCompletes p js \<Longrightarrow>
   PENDING \<notin> snd ` set (resourceStatusMap st) \<Longrightarrow>
   exited (doInject p st) = Some 0 \<and>
   rendered (doInject p st) = rendered st @ [(outputPath st, renderResult p)]"
  by (simp add: doInject_def Let_def phantomExit_def waitForReady_no_pending
      exited_doScreenshot rendered_doScreenshot split: option.splits)

subsection \<open>The example runs, evaluated\<close>

lemmas example_defs = exampleStart_def exampleArgs_def exampleConfig_def
  emptyConfig_def main_def boot_def truthyStr_def configurePage_def mergeResourcesToIgnore_def
  installCallbacks_def badResources_def emptyDocument_def phantomExit_def uncaughtError_def

lemmas network_eval = step_network frame_requested frame_received frame_timeout frame_error
  ledger_requested ledger_received ledger_timeout ledger_error aborted_requested
  reachesLine161_def isDataUri_def

lemma exampleStart_fields:
  "exited exampleStart = None"
  "resourceStatusMap exampleStart = []"
  "cfg exampleStart = exampleConfig\<lparr>resourcesToIgnore := Some [''www.google-analytics.com'']\<rparr>"
  "outputPath exampleStart = Some ''out.png''"
  "opened exampleStart = [Some ''http://example.test/ok.html'']"
  "onLoadFinished exampleStart = Some StartPolling"
  "networkCallbacks exampleStart"
  by (simp_all add: example_defs Let_def)

lemma twoResources_fields:
  "resourceStatusMap twoResources =
     [(''http://example.test/a.js'', PENDING), (''http://example.test/b.css'', DONE)]"
  "exited twoResources = None"
  "cfg twoResources = exampleConfig\<lparr>resourcesToIgnore := Some [''www.google-analytics.com'']\<rparr>"
  "networkCallbacks twoResources"
  by (simp_all add: twoResources_def exampleStart_fields network_eval quietPlatform_def
      exampleConfig_def emptyConfig_def)


lemma exampleStart_literal:
  "exampleStart =
     \<lparr> cfg = \<lparr> targetUrl = Some ''http://example.test/ok.html'', viewportSize = None,
         userAgent = None, clipRect = None, cookies = None, httpUserName = None,
         httpPassword = None, resourceTimeoutMs = None,
         resourcesToIgnore = Some [''www.google-analytics.com''], injectHeaders = None,
         injectCss = None, injectJs = None \<rparr>,
       outputPath = Some ''out.png'', pageViewportSize = None, pageUserAgent = None,
       pageClipRect = None, phantomCookies = [], pageUserName = None, pagePassword = None,
       resourceTimeout = 10000, onLoadFinished = Some StartPolling,
       networkCallbacks = True, resourceStatusMap = [],
       page = \<lparr> readyState = ''loading'', elements = [] \<rparr>, intervals = [], timeouts = [],
       nextTimer = 0, opened = [Some ''http://example.test/ok.html''], aborted = [],
       headersSet = [], cssInjected = [], jsEvaluated = [], phantomInjected = [],
       rendered = [], uncaught = [], exited = None \<rparr>"
  by (simp add: example_defs Let_def)

lemma injectStart_literal:
  "injectStart =
     \<lparr> cfg = \<lparr> targetUrl = Some ''http://example.test/ok.html'', viewportSize = None,
         userAgent = None, clipRect = None, cookies = None, httpUserName = None,
         httpPassword = None, resourceTimeoutMs = None,
         resourcesToIgnore = Some [''www.google-analytics.com''], injectHeaders = None,
         injectCss = None, injectJs = Some ''throw 1'' \<rparr>,
       outputPath = Some ''out.png'', pageViewportSize = None, pageUserAgent = None,
       pageClipRect = None, phantomCookies = [], pageUserName = None, pagePassword = None,
       resourceTimeout = 10000, onLoadFinished = Some StartPolling,
       networkCallbacks = True, resourceStatusMap = [],
       page = \<lparr> readyState = ''loading'', elements = [] \<rparr>, intervals = [], timeouts = [],
       nextTimer = 0, opened = [Some ''http://example.test/ok.html''], aborted = [],
       headersSet = [], cssInjected = [], jsEvaluated = [], phantomInjected = [],
       rendered = [], uncaught = [], exited = None \<rparr>"
  by (simp add: injectStart_def example_defs Let_def)

lemmas handler_defs = step_def onResourceRequested_def uncaughtError_def onResourceReceived_def
  onResourceTimeout_def onResourceError_def setStatus_def isDataUri_def
  onLoadFinishedCheckStatus_def onLoadFinishedStartPolling_def intervalTick_def
  waitForReady_def setTimeoutWait_def pendingTotal_def doInject_def doScreenshot_def
  invoke_def isDone_def getElementsByTagName_def getElementsByClassName_def phantomExit_def

lemma adsStart_literal:
  "adsStart =
     \<lparr> cfg = \<lparr> targetUrl = Some ''http://example.test/ok.html'', viewportSize = None,
         userAgent = None, clipRect = None, cookies = None, httpUserName = None,
         httpPassword = None, resourceTimeoutMs = None,
         resourcesToIgnore = Some [''ads.example.test'', ''www.google-analytics.com''],
         injectHeaders = None, injectCss = None, injectJs = None \<rparr>,
       outputPath = Some ''out.png'', pageViewportSize = None, pageUserAgent = None,
       pageClipRect = None, phantomCookies = [], pageUserName = None, pagePassword = None,
       resourceTimeout = 10000, onLoadFinished = Some StartPolling,
       networkCallbacks = True, resourceStatusMap = [],
       page = \<lparr> readyState = ''loading'', elements = [] \<rparr>, intervals = [], timeouts = [],
       nextTimer = 0, opened = [Some ''http://example.test/ok.html''], aborted = [],
       headersSet = [], cssInjected = [], jsEvaluated = [], phantomInjected = [],
       rendered = [], uncaught = [], exited = None \<rparr>"
  by (simp add: adsStart_def example_defs Let_def)

lemma lazyState_literal:
  "lazyState =
     \<lparr> cfg = \<lparr> targetUrl = Some ''http://example.test/ok.html'', viewportSize = None,
         userAgent = None, clipRect = None, cookies = None, httpUserName = None,
         httpPassword = None, resourceTimeoutMs = None,
         resourcesToIgnore = Some [''www.google-analytics.com''], injectHeaders = None,
         injectCss = None, injectJs = None \<rparr>,
       outputPath = Some ''out.png'', pageViewportSize = None, pageUserAgent = None,
       pageClipRect = None, phantomCookies = [], pageUserName = None, pagePassword = None,
       resourceTimeout = 10000, onLoadFinished = Some StartPolling,
       networkCallbacks = True,
       resourceStatusMap = [(''http://example.test/a.js'', DONE)],
       page = lazyDoc, intervals = [], timeouts = [(1, DoInject)],
       nextTimer = 2, opened = [Some ''http://example.test/ok.html''], aborted = [],
       headersSet = [], cssInjected = [], jsEvaluated = [], phantomInjected = [],
       rendered = [], uncaught = [], exited = None \<rparr>"
  by (simp add: lazyState_def exampleStart_literal handler_defs quietPlatform_def completeDoc_def)

lemma pollingState_literal:
  "pollingState =
     \<lparr> cfg = \<lparr> targetUrl = Some ''http://example.test/ok.html'', viewportSize = None,
         userAgent = None, clipRect = None, cookies = None, httpUserName = None,
         httpPassword = None, resourceTimeoutMs = None,
         resourcesToIgnore = Some [''www.google-analytics.com''], injectHeaders = None,
         injectCss = None, injectJs = None \<rparr>,
       outputPath = Some ''out.png'', pageViewportSize = None, pageUserAgent = None,
       pageClipRect = None, phantomCookies = [], pageUserName = None, pagePassword = None,
       resourceTimeout = 10000, onLoadFinished = Some StartPolling,
       networkCallbacks = True,
       resourceStatusMap = [],
       page = completeDoc, intervals = [0], timeouts = [],
       nextTimer = 1, opened = [Some ''http://example.test/ok.html''], aborted = [],
       headersSet = [], cssInjected = [], jsEvaluated = [], phantomInjected = [],
       rendered = [], uncaught = [], exited = None \<rparr>"
  by (simp add: pollingState_def exampleStart_literal handler_defs quietPlatform_def)


lemma nullStart_literal:
  "nullStart = boot\<lparr>outputPath := Some ''out.png'', uncaught := [TypeError]\<rparr>"
  by (simp add: nullStart_def main_def exampleArgs_def uncaughtError_def boot_def)

lemma noUrlStart_fields:
  "exited noUrlStart = Some 1"
  "opened noUrlStart = [None]"
  "rendered noUrlStart = []"
  by (simp_all add: noUrlStart_def example_defs Let_def)


section \<open>Properties of the script\<close>








text \<open>
  C10. A request whose URL starts with \<open>data:\<close> is neither checked against
  \<open>resourcesToIgnore\<close> nor given any header of \<open>injectHeaders\<close>: it is never aborted,
  whatever the patterns match. Its URL is still entered in the ledger as \<open>PENDING\<close>, and
  with that entry \<open>page.waitForReady\<close> does not call its function but arms the timer of
  its next poll, as for any other pending resource.
\<close>

theorem data_uri_bypasses_blocklist_but_is_pending:
  "isDataUri url \<Longrightarrow>
     aborted (onResourceRequested p url st) = aborted st
   \<and> headersSet (onResourceRequested p url st) = headersSet st
   \<and> map_of (resourceStatusMap (onResourceRequested p url st)) url = Some PENDING
   \<and> waitForReady func k (onResourceRequested p url st) =
       setTimeoutWait k (onResourceRequested p url st)"
proof -
  assume d: "isDataUri url"
  have l: "resourceStatusMap (onResourceRequested p url st) =
      AList.update url PENDING (resourceStatusMap st)"
    using d by (simp add: ledger_requested reachesLine161_def)
  have "map_of (resourceStatusMap (onResourceRequested p url st)) url = Some PENDING"
    unfolding l by (simp add: update_conv')
  then have "(url, PENDING) \<in> set (resourceStatusMap (onResourceRequested p url st))"
    by (rule map_of_SomeD)
  then have "PENDING \<in> snd ` set (resourceStatusMap (onResourceRequested p url st))"
    by force
  then have w: "waitForReady func k (onResourceRequested p url st) =
       setTimeoutWait k (onResourceRequested p url st)"
    by (rule waitForReady_pending)
  show ?thesis
    using d w
    by (simp add: aborted_requested headersSet_requested_data entry_requested reachesLine161_def)
qed

theorem data_uri_bypasses_blocklist_but_is_pending_witness:
  "isDataUri ''data:image/png;base64,AAAA''
   \<and> ignoreLoop eagerPlatform ''data:image/png;base64,AAAA'' [''www.google-analytics.com''] = Aborts
   \<and> aborted (onResourceRequested eagerPlatform ''data:image/png;base64,AAAA'' exampleStart) = []
   \<and> aborted (onResourceRequested eagerPlatform ''http://example.test/a.js'' exampleStart) =
       [''http://example.test/a.js'']
   \<and> map_of (resourceStatusMap
         (onResourceRequested eagerPlatform ''data:image/png;base64,AAAA'' exampleStart))
         ''data:image/png;base64,AAAA'' = Some PENDING
   \<and> timeouts (waitForReady (doScreenshot eagerPlatform) DoScreenshot
         (onResourceRequested eagerPlatform ''data:image/png;base64,AAAA'' exampleStart)) =
       [(0, DoScreenshot)]
   \<and> exited (waitForReady (doScreenshot eagerPlatform) DoScreenshot
         (onResourceRequested eagerPlatform ''data:image/png;base64,AAAA'' exampleStart)) = None"
proof -
  have d: "isDataUri ''data:image/png;base64,AAAA''"
    by (simp add: isDataUri_def)
  note inst = data_uri_bypasses_blocklist_but_is_pending
    [OF d, of eagerPlatform exampleStart "doScreenshot eagerPlatform" DoScreenshot]
  have m: "ignoreLoop eagerPlatform ''data:image/png;base64,AAAA'' [''www.google-analytics.com''] = Aborts"
    by (simp add: eagerPlatform_def)
  have other: "aborted (onResourceRequested eagerPlatform ''http://example.test/a.js'' exampleStart) =
       [''http://example.test/a.js'']"
    by (simp add: aborted_requested isDataUri_def exampleStart_fields exampleStart_literal
        eagerPlatform_def)
  have ab: "aborted (onResourceRequested eagerPlatform ''data:image/png;base64,AAAA'' exampleStart) = []"
    using inst by (simp add: exampleStart_literal)
  have t: "timeouts (waitForReady (doScreenshot eagerPlatform) DoScreenshot
         (onResourceRequested eagerPlatform ''data:image/png;base64,AAAA'' exampleStart)) =
       [(0, DoScreenshot)]"
    using inst by (simp add: setTimeoutWait_def frame_requested nextTimer_requested exampleStart_literal)
  have x: "exited (waitForReady (doScreenshot eagerPlatform) DoScreenshot
         (onResourceRequested eagerPlatform ''data:image/png;base64,AAAA'' exampleStart)) = None"
    using inst by (simp add: setTimeoutWait_def frame_requested exampleStart_literal)
  show ?thesis using d m ab other inst t x by (intro conjI) simp_all
qed


text \<open>
  C9. \<open>page.doScreenshot\<close> calls \<open>page.render\<close> once, with the output path, and then
  ends the process with exit code 0, whatever \<open>page.render\<close> returned: the exit code
  after a failed render is the exit code after a successful one. No event changes the
  state after that, so no second render follows. In every state of a run started with two
  arguments the output path is the second of them.
\<close>

theorem capture_stage_exits_0:
  "exited (doScreenshot p st) = Some 0
   \<and> rendered (doScreenshot p st) = rendered st @ [(outputPath st, renderResult p)]
   \<and> exited (doScreenshot (p\<lparr>renderResult := False\<rparr>) st) =
       exited (doScreenshot (p\<lparr>renderResult := True\<rparr>) st)
   \<and> run p' (doScreenshot p st) evs = doScreenshot p st
   \<and> (length args = 3 \<longrightarrow> outputPath (run p (main args readConfig) evs) = Some (args ! 2))"
  by (simp add: exited_doScreenshot rendered_doScreenshot run_exited outputPath_run
      main_outputPath)

theorem capture_stage_exits_0_witness:
  "exited (doScreenshot quietPlatform exampleStart) = Some 0
   \<and> rendered (doScreenshot quietPlatform exampleStart) = [(Some ''out.png'', True)]
   \<and> exited (doScreenshot (quietPlatform\<lparr>renderResult := False\<rparr>) exampleStart) = Some 0
   \<and> rendered (run quietPlatform (doScreenshot quietPlatform exampleStart)
        [TimeoutFires 0, IntervalFires 0]) = [(Some ''out.png'', True)]
   \<and> outputPath (run quietPlatform exampleStart [LoadFinished ''success'']) = Some ''out.png''"
proof -
  have l: "length exampleArgs = 3" by (simp add: exampleArgs_def)
  note inst = capture_stage_exits_0 [of quietPlatform exampleStart quietPlatform
      "[TimeoutFires 0, IntervalFires 0]" exampleArgs "\<lambda>path. JsonObject exampleConfig"]
  note failing = capture_stage_exits_0 [of "quietPlatform\<lparr>renderResult := False\<rparr>"
      exampleStart quietPlatform "[LoadFinished ''success'']" exampleArgs
      "\<lambda>path. JsonObject exampleConfig"]
  note loaded = capture_stage_exits_0 [of quietPlatform exampleStart quietPlatform
      "[LoadFinished ''success'']" exampleArgs "\<lambda>path. JsonObject exampleConfig"]
  have x: "exited (doScreenshot quietPlatform exampleStart) = Some 0"
    using inst by (rule conjunct1)
  have r: "rendered (doScreenshot quietPlatform exampleStart) = [(Some ''out.png'', True)]"
    using inst [THEN conjunct2, THEN conjunct1]
    by (simp add: exampleStart_fields exampleStart_literal quietPlatform_def)
  have f: "exited (doScreenshot (quietPlatform\<lparr>renderResult := False\<rparr>) exampleStart) = Some 0"
    using failing by (rule conjunct1)
  have a: "run quietPlatform (doScreenshot quietPlatform exampleStart)
        [TimeoutFires 0, IntervalFires 0] = doScreenshot quietPlatform exampleStart"
    using inst [THEN conjunct2, THEN conjunct2, THEN conjunct2] by (rule conjunct1)
  have o: "outputPath (run quietPlatform exampleStart [LoadFinished ''success'']) = Some ''out.png''"
    using loaded [THEN conjunct2, THEN conjunct2, THEN conjunct2, THEN conjunct2] l
    unfolding exampleStart_def [symmetric] by (simp add: exampleArgs_def del: run.simps)
  show ?thesis unfolding a using x r f o by (intro conjI)
qed


text \<open>
  C7. An injected script that throws does not stop the capture. The configuration injects
  \<open>throw 1\<close>; the page loads and is complete, and no resource is pending. The poll calls
  \<open>page.doInject\<close>: the script is evaluated and throws, line 298 calls \<open>phantom.exit(1)\<close>,
  and line 304 goes on to \<open>page.waitForReady(page.doScreenshot)\<close>, which renders the
  screenshot and calls \<open>phantom.exit(0)\<close>.
\<close>

theorem injectJs_exception_still_renders:
  "injectJs (cfg injectStart) = Some ''throw 1''
   \<and> \<not> evalCompletes throwingPlatform ''throw 1''
   \<and> exited injectPolling = None
   \<and> jsEvaluated (step throwingPlatform injectPolling (IntervalFires 0)) = [''throw 1'']
   \<and> rendered (step throwingPlatform injectPolling (IntervalFires 0)) = [(Some ''out.png'', True)]
   \<and> exited (step throwingPlatform injectPolling (IntervalFires 0)) = Some 0"
  by (simp add: injectPolling_def injectStart_literal handler_defs throwingPlatform_def
      completeDoc_def)

text \<open>
  C6. Not every faulty configuration ends the process with exit code 1 before the page is
  opened. For a configuration file that holds \<open>null\<close>, line 52 throws a \<open>TypeError\<close> that
  nothing catches: \<open>phantom.exit\<close> is never called, no callback is assigned, and no event
  changes that. For a configuration without \<open>targetUrl\<close>, line 54 calls
  \<open>phantom.exit(1)\<close> and the script goes on to call \<open>page.open\<close> with the missing URL
  before the process ends with exit code 1.
\<close>

theorem config_faults_are_not_all_fatal:
  "exited nullStart = None
   \<and> uncaught nullStart = [TypeError]
   \<and> opened nullStart = []
   \<and> run quietPlatform nullStart
        [LoadFinished ''success'', ResourceRequested ''http://example.test/a.js'',
         IntervalFires 0, TimeoutFires 0] = nullStart
   \<and> exited noUrlStart = Some 1
   \<and> opened noUrlStart = [None]
   \<and> rendered noUrlStart = []"
  by (simp add: nullStart_literal noUrlStart_fields boot_def step_def)




text \<open>
  C5, as the script has it. For a valid invocation the effective list of resources to
  ignore is the list of the configuration followed by the default entry
  \<open>www.google-analytics.com\<close> when the configuration has a list, and the default entry
  alone when it has none. The resource timeout is the configured number, and 10000 when
  that is missing or 0. Every other optional field is used as it is given and left unset
  when it is missing (an empty user agent counts as missing, the clip rectangle starts at
  the origin, and the user name and password are set only when both are non-empty).
\<close>

theorem effective_configuration:
  "length args = 3 \<Longrightarrow> readConfig (Some (args ! 1)) = JsonObject c \<Longrightarrow>
   targetUrl c = Some u \<Longrightarrow> u \<noteq> [] \<Longrightarrow>
     resourcesToIgnore (cfg (main args readConfig)) =
       (case resourcesToIgnore c of
          Some user \<Rightarrow> Some (user @ [''www.google-analytics.com''])
        | None \<Rightarrow> Some [''www.google-analytics.com''])
   \<and> resourceTimeout (main args readConfig) =
       (case resourceTimeoutMs c of Some n \<Rightarrow> (if n = 0 then 10000 else n) | None \<Rightarrow> 10000)
   \<and> pageViewportSize (main args readConfig) = viewportSize c
   \<and> pageUserAgent (main args readConfig) = (if userAgent c = Some [] then None else userAgent c)
   \<and> pageClipRect (main args readConfig) = map_option (\<lambda>(w, h). (0, 0, w, h)) (clipRect c)
   \<and> phantomCookies (main args readConfig) = (case cookies c of Some cs \<Rightarrow> cs | None \<Rightarrow> [])
   \<and> pageUserName (main args readConfig) =
       (if truthyStr (httpUserName c) \<and> truthyStr (httpPassword c) then httpUserName c else None)
   \<and> pagePassword (main args readConfig) =
       (if truthyStr (httpUserName c) \<and> truthyStr (httpPassword c) then httpPassword c else None)
   \<and> injectHeaders (cfg (main args readConfig)) = injectHeaders c
   \<and> injectCss (cfg (main args readConfig)) = injectCss c
   \<and> injectJs (cfg (main args readConfig)) = injectJs c"
proof -
  assume v: "length args = 3" "readConfig (Some (args ! 1)) = JsonObject c"
    "targetUrl c = Some u" "u \<noteq> []"
  note m = main_valid [of args readConfig c u, OF v]
  have 1: "resourcesToIgnore (cfg (main args readConfig)) =
       (case resourcesToIgnore c of
          Some user \<Rightarrow> Some (user @ [''www.google-analytics.com''])
        | None \<Rightarrow> Some [''www.google-analytics.com''])"
    unfolding m
    by (simp add: installCallbacks_def mergeResourcesToIgnore_def badResources_def
        split: option.splits)
  have 2: "resourceTimeout (main args readConfig) =
       (case resourceTimeoutMs c of Some n \<Rightarrow> (if n = 0 then 10000 else n) | None \<Rightarrow> 10000)"
    unfolding m
    by (simp add: installCallbacks_def configurePage_def Let_def split: option.splits)
  have 3: "pageViewportSize (main args readConfig) = viewportSize c"
    unfolding m
    by (simp add: installCallbacks_def configurePage_def Let_def boot_def
        split: option.splits prod.splits)
  have 4: "pageUserAgent (main args readConfig) = (if userAgent c = Some [] then None else userAgent c)"
    unfolding m
    by (simp add: installCallbacks_def configurePage_def Let_def boot_def truthyStr_def
        split: option.splits prod.splits)
  have 5: "pageClipRect (main args readConfig) = map_option (\<lambda>(w, h). (0, 0, w, h)) (clipRect c)"
    unfolding m
    by (simp add: installCallbacks_def configurePage_def Let_def boot_def
        split: option.splits prod.splits)
  have 6: "phantomCookies (main args readConfig) = (case cookies c of Some cs \<Rightarrow> cs | None \<Rightarrow> [])"
    unfolding m
    by (simp add: installCallbacks_def configurePage_def Let_def boot_def
        split: option.splits prod.splits)
  have 8: "pageUserName (main args readConfig) =
       (if truthyStr (httpUserName c) \<and> truthyStr (httpPassword c) then httpUserName c else None)"
    "pagePassword (main args readConfig) =
       (if truthyStr (httpUserName c) \<and> truthyStr (httpPassword c) then httpPassword c else None)"
    unfolding m
    by (simp_all add: installCallbacks_def configurePage_def Let_def boot_def
        split: option.splits prod.splits)
  have 7: "injectHeaders (cfg (main args readConfig)) = injectHeaders c"
    "injectCss (cfg (main args readConfig)) = injectCss c"
    "injectJs (cfg (main args readConfig)) = injectJs c"
    unfolding m
    by (simp_all add: installCallbacks_def mergeResourcesToIgnore_def split: option.splits)
  show ?thesis using 1 2 3 4 5 6 8 7 by (intro conjI)
qed

theorem effective_configuration_witness:
  "resourcesToIgnore (cfg adsStart) = Some [''ads.example.test'', ''www.google-analytics.com'']
   \<and> resourcesToIgnore (cfg exampleStart) = Some [''www.google-analytics.com'']
   \<and> resourceTimeout adsStart = 10000
   \<and> resourceTimeout (main exampleArgs
        (\<lambda>path. JsonObject (exampleConfig\<lparr>resourceTimeoutMs := Some 2500\<rparr>))) = 2500"
proof -
  have l: "length exampleArgs = 3" by (simp add: exampleArgs_def)
  have u: "''http://example.test/ok.html'' \<noteq> []" by simp
  have t: "targetUrl (exampleConfig\<lparr>resourcesToIgnore := Some [''ads.example.test'']\<rparr>) =
      Some ''http://example.test/ok.html''"
    "targetUrl exampleConfig = Some ''http://example.test/ok.html''"
    "targetUrl (exampleConfig\<lparr>resourceTimeoutMs := Some 2500\<rparr>) =
      Some ''http://example.test/ok.html''"
    by (simp_all add: exampleConfig_def)
  note a = effective_configuration [of exampleArgs
      "\<lambda>path. JsonObject (exampleConfig\<lparr>resourcesToIgnore := Some [''ads.example.test'']\<rparr>)"
      "exampleConfig\<lparr>resourcesToIgnore := Some [''ads.example.test'']\<rparr>"
      "''http://example.test/ok.html''", OF l refl t(1) u, folded adsStart_def]
  note b = effective_configuration [of exampleArgs "\<lambda>path. JsonObject exampleConfig" exampleConfig
      "''http://example.test/ok.html''", OF l refl t(2) u, folded exampleStart_def]
  note c = effective_configuration [of exampleArgs
      "\<lambda>path. JsonObject (exampleConfig\<lparr>resourceTimeoutMs := Some 2500\<rparr>)"
      "exampleConfig\<lparr>resourceTimeoutMs := Some 2500\<rparr>"
      "''http://example.test/ok.html''", OF l refl t(3) u]
  have 1: "resourcesToIgnore (cfg adsStart) = Some [''ads.example.test'', ''www.google-analytics.com'']"
    using a [THEN conjunct1] by simp
  have 2: "resourcesToIgnore (cfg exampleStart) = Some [''www.google-analytics.com'']"
    using b [THEN conjunct1] by (simp add: exampleConfig_def emptyConfig_def)
  have 3: "resourceTimeout adsStart = 10000"
    using a [THEN conjunct2, THEN conjunct1] by (simp add: exampleConfig_def emptyConfig_def)
  have 4: "resourceTimeout (main exampleArgs
        (\<lambda>path. JsonObject (exampleConfig\<lparr>resourceTimeoutMs := Some 2500\<rparr>))) = 2500"
    using c [THEN conjunct2, THEN conjunct1] by simp
  show ?thesis using 1 2 3 4 by (intro conjI)
qed

text \<open>
  C5, as the specification has it, fails: a configuration whose list is
  \<open>ads.example.test\<close> gets an effective list of two entries, and a request to the
  analytics host is aborted although the list of the configuration does not name it.
\<close>

theorem user_blocklist_is_extended_counterexample:
  "resourcesToIgnore (exampleConfig\<lparr>resourcesToIgnore := Some [''ads.example.test'']\<rparr>) =
     Some [''ads.example.test'']
   \<and> resourcesToIgnore (cfg adsStart) \<noteq> Some [''ads.example.test'']
   \<and> resourcesToIgnore (cfg adsStart) = Some [''ads.example.test'', ''www.google-analytics.com'']
   \<and> aborted (onResourceRequested adsPlatform ''http://www.google-analytics.com/ga.js'' adsStart) =
       [''http://www.google-analytics.com/ga.js'']"
  by (simp add: adsStart_literal aborted_requested isDataUri_def adsPlatform_def)


text \<open>
  C1, as the script has it. \<open>page.isDone\<close> is true exactly when the three conditions on
  the page hold: the document is complete, every \<open>img\<close> element is complete with a
  natural height that is not 0, and the two lazy-load counts are equal.
  \<open>page.waitForReady\<close> calls its function exactly when the ledger has no \<open>PENDING\<close>
  entry, and does not look at the page. A tick of the completion poll hands over to
  \<open>page.doInject\<close> within that tick exactly when all four conditions hold; when the three
  conditions on the page hold and a resource is pending it stops the poll and arms the
  timer of \<open>page.waitForReady\<close>; otherwise it does nothing.
\<close>

theorem readiness_is_two_checks:
  "isDone d = domReadyClaimed d
   \<and> waitForReady func k st = (if noPendingClaimed st then func st else setTimeoutWait k st)
   \<and> (exited st = None \<and> iid \<in> set (intervals st) \<longrightarrow>
        step p st (IntervalFires iid) =
          (if readinessClaimed st
           then doInject p (st\<lparr>intervals := removeAll iid (intervals st)\<rparr>)
           else if domReadyClaimed (page st)
           then setTimeoutWait DoInject (st\<lparr>intervals := removeAll iid (intervals st)\<rparr>)
           else st))"
proof (intro conjI impI)
  show "isDone d = domReadyClaimed d" by (rule isDone_eq)
  show w: "waitForReady func k st = (if noPendingClaimed st then func st else setTimeoutWait k st)"
    for func k st
    by (simp add: waitForReady_def pendingTotal_eq)
  assume "exited st = None \<and> iid \<in> set (intervals st)"
  then show "step p st (IntervalFires iid) =
          (if readinessClaimed st
           then doInject p (st\<lparr>intervals := removeAll iid (intervals st)\<rparr>)
           else if domReadyClaimed (page st)
           then setTimeoutWait DoInject (st\<lparr>intervals := removeAll iid (intervals st)\<rparr>)
           else st)"
    by (simp add: step_def intervalTick_def isDone_eq w readinessClaimed_def
        noPendingClaimed_intervals)
qed

theorem readiness_is_two_checks_witness:
  "isDone completeDoc
   \<and> \<not> isDone lazyDoc
   \<and> readinessClaimed pollingState
   \<and> exited (step quietPlatform pollingState (IntervalFires 0)) = Some 0
   \<and> waitForReady (doScreenshot quietPlatform) DoScreenshot twoResources =
       setTimeoutWait DoScreenshot twoResources"
proof -
  note a = readiness_is_two_checks [of completeDoc "doScreenshot quietPlatform" DoScreenshot
      twoResources 0 quietPlatform]
  note b = readiness_is_two_checks [of lazyDoc "doScreenshot quietPlatform" DoScreenshot
      pollingState 0 quietPlatform]
  have 1: "isDone completeDoc"
    using a [THEN conjunct1]
    by (simp add: domReadyClaimed_def completeDoc_def)
  have 2: "\<not> isDone lazyDoc"
    using b [THEN conjunct1]
    by (simp add: domReadyClaimed_def lazyDoc_def hasClass_def [abs_def])
  have 3: "readinessClaimed pollingState"
    by (simp add: readinessClaimed_def noPendingClaimed_def domReadyClaimed_def
        pollingState_literal completeDoc_def)
  have pre: "exited pollingState = None \<and> 0 \<in> set (intervals pollingState)"
    by (simp add: pollingState_literal)
  have "step quietPlatform pollingState (IntervalFires 0) =
      doInject quietPlatform (pollingState\<lparr>intervals := removeAll 0 (intervals pollingState)\<rparr>)"
    using b [THEN conjunct2, THEN conjunct2] pre 3 by simp
  then have 4: "exited (step quietPlatform pollingState (IntervalFires 0)) = Some 0"
    by (simp add: pollingState_literal doInject_def waitForReady_def pendingTotal_def
        exited_doScreenshot)
  have 5: "waitForReady (doScreenshot quietPlatform) DoScreenshot twoResources =
       setTimeoutWait DoScreenshot twoResources"
    using a [THEN conjunct2, THEN conjunct1]
    by (simp add: noPendingClaimed_def twoResources_fields)
  show ?thesis using 1 2 3 4 5 by (intro conjI)
qed

text \<open>
  C1, as the specification has it, fails. In the state below exactly one of the four
  conditions is false (a lazy-load element is not unveiled), and the timer of
  \<open>page.waitForReady\<close> goes on to inject and to render the screenshot.
\<close>

theorem readiness_counterexample:
  "noPendingClaimed lazyState
   \<and> readyState (page lazyState) = ''complete''
   \<and> list_all imgLoaded (filter (\<lambda>e. tagName e = ''img'') (elements (page lazyState)))
   \<and> length (filter (hasClass ''lazy-load'') (elements (page lazyState))) = 1
   \<and> length (filter (\<lambda>e. hasClass ''lazy-load'' e \<and> hasClass ''is-unveiled'' e)
        (elements (page lazyState))) = 0
   \<and> \<not> readinessClaimed lazyState
   \<and> exited lazyState = None
   \<and> rendered (step quietPlatform lazyState (TimeoutFires 1)) = [(Some ''out.png'', True)]
   \<and> exited (step quietPlatform lazyState (TimeoutFires 1)) = Some 0"
  by (simp add: lazyState_literal lazyDoc_def readinessClaimed_def noPendingClaimed_def
      domReadyClaimed_def hasClass_def [abs_def] imgLoaded_def handler_defs quietPlatform_def)


text \<open>
  C2. The handler that is installed when the page load finishes is the second value
  assigned to \<open>page.onLoadFinished\<close>, which does not read the status. After a load that
  finishes with status \<open>fail\<close> the process has not ended and the completion poll is armed;
  when the poll then finds the page done, the screenshot is rendered and the process ends
  with exit code 0. The first value assigned to \<open>page.onLoadFinished\<close> would have ended
  the process with exit code 1.
\<close>

theorem navigation_failure_is_not_fatal:
  "onLoadFinished exampleStart = Some StartPolling
   \<and> exited (step quietPlatform exampleStart (LoadFinished ''fail'')) = None
   \<and> intervals (step quietPlatform exampleStart (LoadFinished ''fail'')) = [0]
   \<and> exited (run quietPlatform exampleStart
        [LoadFinished ''fail'', PageChanges completeDoc, IntervalFires 0]) = Some 0
   \<and> rendered (run quietPlatform exampleStart
        [LoadFinished ''fail'', PageChanges completeDoc, IntervalFires 0]) =
       [(Some ''out.png'', True)]
   \<and> exited (onLoadFinishedCheckStatus ''fail'' exampleStart) = Some 1"
  by (simp add: exampleStart_literal handler_defs quietPlatform_def completeDoc_def)

end
